theory Spec2Isabelle
  imports Complex_Main "HOL-Library.Word"
begin

section \<open>The scene registry of Runtime/Core/Scene.cpp\<close>

text \<open>
  The scene owns a vector of \<^verbatim>\<open>GameObject*\<close> and keeps non-owning caches of
  pointers into it. Pointers are modelled as addresses into an explicit heap, so that
  \<^verbatim>\<open>delete\<close>, aliasing between the registry and the caches, and the
  difference between an entity's address and its string identifier are all visible.
  Reading through a null or deleted pointer is undefined behaviour in C++; the model
  returns an error value there.
\<close>

subsection \<open>Data\<close>

type_synonym addr = nat

datatype error = NullPointer | DanglingPointer | OutOfFuel | MalformedStream

text \<open>
  Modelled from the spec: the enumeration \<^verbatim>\<open>LightType\<close> is declared in Light.h, which
  is not part of the sources. \<^verbatim>\<open>Scene::Resolve\<close> names the members
  \<^verbatim>\<open>Directional\<close> and \<^verbatim>\<open>Point\<close> and tests the second one explicitly, so
  any further member is kept as \<open>OtherLightType\<close>.
\<close>

datatype LightType = Directional | Point | OtherLightType nat

subsection \<open>Single-precision floating point\<close>

text \<open>
  The picking code computes in \<^verbatim>\<open>float\<close>. A \<^verbatim>\<open>float\<close> is modelled as an IEEE 754
  binary32 value: a finite value (a rational with a 24-bit significand and an exponent
  between -149 and 104 for its last bit), an infinity or NaN. Every arithmetic operation
  rounds its exact result to the nearest representable value, ties to the even
  significand, and overflows to an infinity; a comparison with NaN is false. The sign of
  zero is not kept: no operation of the picking code depends on it.
\<close>

datatype float32 = Fin rat | PInf | NInf | NaN

text \<open>\<open>floor_log2 n\<close> is the position of the highest bit of \<open>n\<close>, for \<open>n > 0\<close>.\<close>

function floor_log2 :: "int \<Rightarrow> int" where
  "floor_log2 n = (if n < 2 then 0 else 1 + floor_log2 (n div 2))"
  by pat_completeness auto
termination
  by (relation "measure nat") auto

declare floor_log2.simps [simp del]

definition pow2 :: "int \<Rightarrow> rat" where
  "pow2 z = (if 0 \<le> z then 2 ^ nat z else 1 / 2 ^ nat (- z))"

text \<open>
  The binary exponent of a positive rational \<open>q\<close>, with \<open>pow2 e \<le> q < pow2 (e + 1)\<close>:
  the difference of the bit positions of numerator and denominator, or one less.
\<close>

definition exponent_adjust :: "int \<Rightarrow> rat \<Rightarrow> int" where
  "exponent_adjust k q = (if pow2 k \<le> q then k else k - 1)"

definition exponent :: "rat \<Rightarrow> int" where
  "exponent q =
     exponent_adjust
       (floor_log2 (fst (quotient_of q)) - floor_log2 (snd (quotient_of q))) q"

text \<open>Rounding to the nearest integer, a tie to the even one.\<close>

definition round_pick :: "int \<Rightarrow> rat \<Rightarrow> int" where
  "round_pick f d =
     (if d < 1 / 2 then f else if 1 / 2 < d then f + 1 else if even f then f else f + 1)"

definition round_half_even :: "rat \<Rightarrow> int" where
  "round_half_even r = round_pick \<lfloor>r\<rfloor> (r - of_int \<lfloor>r\<rfloor>)"

definition round_to_ulp :: "rat \<Rightarrow> rat \<Rightarrow> rat" where
  "round_to_ulp a ulp = of_int (round_half_even (a / ulp)) * ulp"

definition signed_result :: "rat \<Rightarrow> rat \<Rightarrow> float32" where
  "signed_result q v =
     (if pow2 128 \<le> v then (if 0 < q then PInf else NInf) else Fin (if 0 < q then v else - v))"

text \<open>
  Rounding a rational to binary32: the unit in the last place is \<open>pow2 (e - 23)\<close> for a
  normal value of exponent \<open>e\<close> and \<open>pow2 (-149)\<close> for a subnormal one; a rounded
  magnitude of \<open>pow2 128\<close> or more is an infinity.
\<close>

definition round32 :: "rat \<Rightarrow> float32" where
  "round32 q =
     (if q = 0 then Fin 0
      else signed_result q (round_to_ulp \<bar>q\<bar> (pow2 (max (exponent \<bar>q\<bar>) (- 126) - 23))))"

text \<open>\<open>isqrt n\<close> is the integer part of the square root of \<open>n\<close>.\<close>

definition isqrt_step :: "int \<Rightarrow> int \<Rightarrow> int" where
  "isqrt_step r n = (if (r + 1) * (r + 1) \<le> n then r + 1 else r)"

function isqrt :: "int \<Rightarrow> int" where
  "isqrt n = (if n \<le> 0 then 0 else isqrt_step (2 * isqrt (n div 4)) n)"
  by pat_completeness auto
termination
  by (relation "measure nat") auto

declare isqrt.simps [simp del]

text \<open>
  The correctly rounded square root of a non-negative rational \<open>a\<close>: with \<open>t\<close> the
  value of \<open>a\<close> in squared units of the last place of the result, the integer part of
  the root of \<open>t\<close> is rounded up when \<open>t\<close> lies above the square of the midpoint.
\<close>

definition sqrt_pick :: "int \<Rightarrow> rat \<Rightarrow> int" where
  "sqrt_pick n0 t =
     (if t < (of_int n0 + 1 / 2) * (of_int n0 + 1 / 2) then n0
      else if (of_int n0 + 1 / 2) * (of_int n0 + 1 / 2) < t then n0 + 1
      else if even n0 then n0 else n0 + 1)"

definition sqrt_scaled :: "rat \<Rightarrow> rat \<Rightarrow> float32" where
  "sqrt_scaled t ulp = Fin (of_int (sqrt_pick (isqrt \<lfloor>t\<rfloor>) t) * ulp)"

definition sqrt_ulp :: "rat \<Rightarrow> rat \<Rightarrow> float32" where
  "sqrt_ulp a ulp = sqrt_scaled (a / (ulp * ulp)) ulp"

definition sqrt32 :: "rat \<Rightarrow> float32" where
  "sqrt32 a = (if a = 0 then Fin 0 else sqrt_ulp a (pow2 (exponent a div 2 - 23)))"

fun f_neg :: "float32 \<Rightarrow> float32" where
  "f_neg (Fin a) = Fin (- a)"
| "f_neg PInf = NInf"
| "f_neg NInf = PInf"
| "f_neg NaN = NaN"

fun f_abs :: "float32 \<Rightarrow> float32" where
  "f_abs (Fin a) = Fin \<bar>a\<bar>"
| "f_abs PInf = PInf"
| "f_abs NInf = PInf"
| "f_abs NaN = NaN"

fun f_add :: "float32 \<Rightarrow> float32 \<Rightarrow> float32" where
  "f_add (Fin a) (Fin b) = round32 (a + b)"
| "f_add NaN y = NaN"
| "f_add x NaN = NaN"
| "f_add PInf NInf = NaN"
| "f_add NInf PInf = NaN"
| "f_add PInf y = PInf"
| "f_add NInf y = NInf"
| "f_add (Fin a) y = y"

definition f_sub :: "float32 \<Rightarrow> float32 \<Rightarrow> float32" where
  "f_sub x y = f_add x (f_neg y)"

text \<open>The sign of a value that is not NaN: -1, 0 or 1.\<close>

fun f_sign :: "float32 \<Rightarrow> int" where
  "f_sign (Fin a) = (if a < 0 then - 1 else if a = 0 then 0 else 1)"
| "f_sign PInf = 1"
| "f_sign NInf = - 1"
| "f_sign NaN = 0"

text \<open>
  A product with an infinity is an infinity of the product's sign; zero times an infinity
  is NaN.
\<close>

fun f_mul :: "float32 \<Rightarrow> float32 \<Rightarrow> float32" where
  "f_mul (Fin a) (Fin b) = round32 (a * b)"
| "f_mul x y =
     (if x = NaN \<or> y = NaN \<or> f_sign x * f_sign y = 0 then NaN
      else if 0 < f_sign x * f_sign y then PInf else NInf)"

text \<open>
  \<^verbatim>\<open>pow(x, 2.0f)\<close>: the rounded square, which is also what \<^verbatim>\<open>pow\<close> returns for an
  infinity and for NaN.
\<close>

definition f_pow2 :: "float32 \<Rightarrow> float32" where
  "f_pow2 x = f_mul x x"

fun f_sqrt :: "float32 \<Rightarrow> float32" where
  "f_sqrt (Fin a) = (if a < 0 then NaN else sqrt32 a)"
| "f_sqrt PInf = PInf"
| "f_sqrt NInf = NaN"
| "f_sqrt NaN = NaN"

fun f_less :: "float32 \<Rightarrow> float32 \<Rightarrow> bool" where
  "f_less (Fin a) (Fin b) = (a < b)"
| "f_less NaN y = False"
| "f_less x NaN = False"
| "f_less x NInf = False"
| "f_less PInf y = False"
| "f_less NInf y = True"
| "f_less (Fin a) PInf = True"

text \<open>\<^verbatim>\<open>std::max(a, b)\<close> is \<^verbatim>\<open>(a < b) ? b : a\<close>.\<close>

definition f_max :: "float32 \<Rightarrow> float32 \<Rightarrow> float32" where
  "f_max a b = (if f_less a b then b else a)"

record Vector3 =
  vec_x :: float32
  vec_y :: float32
  vec_z :: float32

text \<open>
  Modelled from the spec: the component classes are declared outside the sources. The
  spec lists the capabilities (camera, light, mesh-filter, mesh-renderer, line-renderer,
  skybox, script); the Transform, of which every entity has exactly one, is kept in the
  fields of the entity itself. A light carries its type, a mesh filter the extent of its
  bounding box (\<^verbatim>\<open>GetBoundingBox\<close>).
\<close>

datatype Component =
    Camera
  | Light LightType
  | MeshFilter Vector3
  | MeshRenderer
  | LineRenderer
  | Skybox
  | Script

datatype ComponentType =
  TCamera | TLight | TMeshFilter | TMeshRenderer | TLineRenderer | TSkybox | TScript

fun component_type :: "Component \<Rightarrow> ComponentType" where
  "component_type Camera = TCamera"
| "component_type (Light t) = TLight"
| "component_type (MeshFilter b) = TMeshFilter"
| "component_type MeshRenderer = TMeshRenderer"
| "component_type LineRenderer = TLineRenderer"
| "component_type Skybox = TSkybox"
| "component_type Script = TScript"

text \<open>
  A GameObject with its Transform: the identifier and name, the attached components in
  attachment order, the world position and forward vector of the transform, the parent
  link (the address of the parent's entity, \<open>None\<close> for a root) and the child links.
\<close>

record GameObject =
  m_ID :: string
  m_name :: string
  m_components :: "Component list"
  t_position :: Vector3
  t_forward :: Vector3
  t_parent :: "addr option"
  t_children :: "addr list"

type_synonym heap = "addr \<Rightarrow> GameObject option"

text \<open>
  The scene: the heap of entities, the registry \<^verbatim>\<open>m_gameObjects\<close>, the derived caches,
  the paths held by the resource cache, and the allocator. \<^verbatim>\<open>new GameObject\<close> is a bump
  allocator: it returns \<open>next_free\<close> and never hands an address out twice.
\<close>

record Scene =
  heap :: heap
  m_gameObjects :: "addr list"
  m_renderables :: "addr list"
  m_lightsDirectional :: "addr list"
  m_lightsPoint :: "addr list"
  m_mainCamera :: "addr option"
  m_skybox :: "addr option"
  resources :: "string list"
  next_free :: addr

text \<open>
  Modelled from the spec: \<^verbatim>\<open>HasComponent<T>\<close> and \<^verbatim>\<open>GetComponent<T>\<close> of
  GameObject.h (not in the sources) query the attached capabilities by type; the first
  attached component of the type is the one returned.
\<close>

definition HasComponent :: "GameObject \<Rightarrow> ComponentType \<Rightarrow> bool" where
  "HasComponent go ty = list_ex (\<lambda>c. component_type c = ty) (m_components go)"

definition GetComponent :: "GameObject \<Rightarrow> ComponentType \<Rightarrow> Component option" where
  "GetComponent go ty = find (\<lambda>c. component_type c = ty) (m_components go)"

subsection \<open>Scene::Scene and Scene::Clear\<close>


fun delete_all :: "addr list \<Rightarrow> heap \<Rightarrow> heap" where
  "delete_all [] h = h"
| "delete_all (a # as) h = delete_all as (h(a := None))"

text \<open>
  \<^verbatim>\<open>Clear\<close> deletes every registered entity, empties the registry and the caches and
  unloads the resource cache. The resets of the scripting, physics and renderer
  subsystems act on state outside the scene and are not part of the model.
\<close>

definition Clear :: "Scene \<Rightarrow> Scene" where
  "Clear s = s\<lparr> heap := delete_all (m_gameObjects s) (heap s), m_gameObjects := [],
     m_renderables := [], m_lightsDirectional := [], m_lightsPoint := [],
     m_mainCamera := None, m_skybox := None, resources := [] \<rparr>"

subsection \<open>Scene::Resolve\<close>

text \<open>The body of the loop of \<^verbatim>\<open>Resolve\<close> for the entity at address \<open>a\<close>.\<close>

definition find_camera :: "addr \<Rightarrow> GameObject \<Rightarrow> Scene \<Rightarrow> Scene" where
  "find_camera a go s = (if HasComponent go TCamera then s\<lparr> m_mainCamera := Some a \<rparr> else s)"

definition find_skybox :: "addr \<Rightarrow> GameObject \<Rightarrow> Scene \<Rightarrow> Scene" where
  "find_skybox a go s = (if HasComponent go TSkybox then s\<lparr> m_skybox := Some a \<rparr> else s)"

definition find_renderables :: "addr \<Rightarrow> GameObject \<Rightarrow> Scene \<Rightarrow> Scene" where
  "find_renderables a go s =
     (if HasComponent go TMeshRenderer \<and> HasComponent go TMeshFilter
      then s\<lparr> m_renderables := m_renderables s @ [a] \<rparr> else s)"

definition find_lights :: "addr \<Rightarrow> GameObject \<Rightarrow> Scene \<Rightarrow> Scene" where
  "find_lights a go s =
     (if HasComponent go TLight then
        (case GetComponent go TLight of
           Some (Light Directional) \<Rightarrow> s\<lparr> m_lightsDirectional := m_lightsDirectional s @ [a] \<rparr>
         | Some (Light Point) \<Rightarrow> s\<lparr> m_lightsPoint := m_lightsPoint s @ [a] \<rparr>
         | _ \<Rightarrow> s)
      else s)"

definition Resolve_body :: "addr \<Rightarrow> GameObject \<Rightarrow> Scene \<Rightarrow> Scene" where
  "Resolve_body a go s = find_lights a go (find_renderables a go (find_skybox a go (find_camera a go s)))"

fun Resolve_loop :: "addr list \<Rightarrow> Scene \<Rightarrow> error + Scene" where
  "Resolve_loop [] s = Inr s"
| "Resolve_loop (a # as) s =
     (case heap s a of
        None \<Rightarrow> Inl DanglingPointer
      | Some go \<Rightarrow> Resolve_loop as (Resolve_body a go s))"

definition clear_caches :: "Scene \<Rightarrow> Scene" where
  "clear_caches s = s\<lparr> m_renderables := [], m_lightsDirectional := [], m_lightsPoint := [],
     m_mainCamera := None, m_skybox := None \<rparr>"

definition Resolve :: "Scene \<Rightarrow> error + Scene" where
  "Resolve s = Resolve_loop (m_gameObjects s) (clear_caches s)"

subsection \<open>What Resolve computes\<close>

text \<open>Every pointer of the registry points to a live entity.\<close>

definition registry_live :: "Scene \<Rightarrow> bool" where
  "registry_live s = list_all (\<lambda>a. heap s a \<noteq> None) (m_gameObjects s)"

definition has_type :: "heap \<Rightarrow> ComponentType \<Rightarrow> addr \<Rightarrow> bool" where
  "has_type h ty a = (case h a of None \<Rightarrow> False | Some go \<Rightarrow> HasComponent go ty)"

definition is_renderable :: "heap \<Rightarrow> addr \<Rightarrow> bool" where
  "is_renderable h a = (has_type h TMeshRenderer a \<and> has_type h TMeshFilter a)"

definition is_light :: "heap \<Rightarrow> LightType \<Rightarrow> addr \<Rightarrow> bool" where
  "is_light h t a = (case h a of None \<Rightarrow> False | Some go \<Rightarrow> GetComponent go TLight = Some (Light t))"

definition last_option :: "'a list \<Rightarrow> 'a option" where
  "last_option xs = (case xs of [] \<Rightarrow> None | _ \<Rightarrow> Some (last xs))"

subsection \<open>Lookup\<close>

text \<open>\<^verbatim>\<open>GetGameObjectByID\<close>: the loop over the registry, reading each entity's identifier.\<close>

fun scan_by_ID :: "heap \<Rightarrow> string \<Rightarrow> addr list \<Rightarrow> error + addr option" where
  "scan_by_ID h i [] = Inr None"
| "scan_by_ID h i (a # as) =
     (case h a of
        None \<Rightarrow> Inl DanglingPointer
      | Some go \<Rightarrow> if m_ID go = i then Inr (Some a) else scan_by_ID h i as)"

definition GetGameObjectByID :: "Scene \<Rightarrow> string \<Rightarrow> error + addr option" where
  "GetGameObjectByID s i = scan_by_ID (heap s) i (m_gameObjects s)"

definition GameObjectExists :: "Scene \<Rightarrow> addr option \<Rightarrow> error + bool" where
  "GameObjectExists s gameObject =
     (case gameObject of
        None \<Rightarrow> Inr False
      | Some a \<Rightarrow>
          (case heap s a of
             None \<Rightarrow> Inl DanglingPointer
           | Some go \<Rightarrow>
               (case GetGameObjectByID s (m_ID go) of
                  Inl e \<Rightarrow> Inl e
                | Inr r \<Rightarrow> Inr (r \<noteq> None))))"

subsection \<open>Creation and removal\<close>

text \<open>
  Modelled from the spec: the constructor of GameObject (not in the sources) creates an
  entity with a default Transform and no other component; the identifier it assigns is
  a parameter.
\<close>

definition zero_vector :: Vector3 where
  "zero_vector = \<lparr> vec_x = Fin 0, vec_y = Fin 0, vec_z = Fin 0 \<rparr>"

definition forward_vector :: Vector3 where
  "forward_vector = \<lparr> vec_x = Fin 0, vec_y = Fin 0, vec_z = Fin 1 \<rparr>"

definition new_GameObject :: "string \<Rightarrow> GameObject" where
  "new_GameObject i = \<lparr> m_ID = i, m_name = ''GameObject'', m_components = [],
     t_position = zero_vector, t_forward = forward_vector, t_parent = None, t_children = [] \<rparr>"

definition push_new :: "string \<Rightarrow> Scene \<Rightarrow> Scene" where
  "push_new i s = s\<lparr> heap := (heap s)(next_free s \<mapsto> new_GameObject i),
     m_gameObjects := m_gameObjects s @ [next_free s], next_free := Suc (next_free s) \<rparr>"





text \<open>
  Modelled from the spec: \<^verbatim>\<open>Transform::ResolveChildrenRecursively\<close> (not in the sources)
  rebuilds the child-set bookkeeping of a subtree: the child set of \<open>p\<close> is emptied and
  refilled with the registered entities whose parent link is \<open>p\<close>, in registry order,
  each of which does the same for its own child set.
\<close>

definition set_children :: "addr list \<Rightarrow> GameObject \<Rightarrow> GameObject" where
  "set_children cs go = go\<lparr> t_children := cs \<rparr>"




subsection \<open>Picking\<close>

text \<open>
  \<^verbatim>\<open>RaySphereIntersect\<close>, operation by operation as the source writes it, in
  \<^verbatim>\<open>float\<close>; the integer \<^verbatim>\<open>4\<close> is converted to \<^verbatim>\<open>float\<close> before it is multiplied.
\<close>

definition RaySphereIntersect :: "Vector3 \<Rightarrow> Vector3 \<Rightarrow> float32 \<Rightarrow> bool" where
  "RaySphereIntersect rayOrigin rayDirection radius =
     (let a = f_add (f_add (f_mul (vec_x rayDirection) (vec_x rayDirection))
                           (f_mul (vec_y rayDirection) (vec_y rayDirection)))
                    (f_mul (vec_z rayDirection) (vec_z rayDirection));
          b = f_mul (f_add (f_add (f_mul (vec_x rayDirection) (vec_x rayOrigin))
                                  (f_mul (vec_y rayDirection) (vec_y rayOrigin)))
                           (f_mul (vec_z rayDirection) (vec_z rayOrigin)))
                    (Fin 2);
          c = f_sub (f_add (f_add (f_mul (vec_x rayOrigin) (vec_x rayOrigin))
                                  (f_mul (vec_y rayOrigin) (vec_y rayOrigin)))
                           (f_mul (vec_z rayOrigin) (vec_z rayOrigin)))
                    (f_mul radius radius);
          discriminant = f_sub (f_pow2 b) (f_mul (f_mul (Fin 4) a) c)
      in if f_less discriminant (Fin 0) then False else True)"

definition bounding_radius :: "Vector3 \<Rightarrow> float32" where
  "bounding_radius extent =
     f_max (f_max (f_abs (vec_x extent)) (f_abs (vec_y extent))) (f_abs (vec_z extent))"

text \<open>
  The intersection loop of \<^verbatim>\<open>MousePick\<close> over \<^verbatim>\<open>m_renderables\<close>. \<open>cam\<close> is the entity
  behind \<^verbatim>\<open>m_mainCamera\<close>; the result is \<^verbatim>\<open>intersectedGameObjects\<close>.
\<close>

fun intersection_test :: "heap \<Rightarrow> GameObject \<Rightarrow> Vector3 \<Rightarrow> Vector3 \<Rightarrow> addr list \<Rightarrow> error + addr list" where
  "intersection_test h cam rayOrigin rayDirection [] = Inr []"
| "intersection_test h cam rayOrigin rayDirection (a # as) =
     (case h a of
        None \<Rightarrow> Inl DanglingPointer
      | Some gameObject \<Rightarrow>
          if HasComponent gameObject TSkybox then intersection_test h cam rayOrigin rayDirection as
          else
            (case GetComponent gameObject TMeshFilter of
               Some (MeshFilter extent) \<Rightarrow>
                 (case intersection_test h cam rayOrigin rayDirection as of
                    Inl e \<Rightarrow> Inl e
                  | Inr rest \<Rightarrow>
                      if RaySphereIntersect rayOrigin rayDirection (bounding_radius extent) then
                        if \<not> RaySphereIntersect (t_position cam) (t_forward cam) (bounding_radius extent)
                        then Inr (a # rest)
                        else Inr rest
                      else Inr rest)
             | _ \<Rightarrow> Inl NullPointer))"

definition distance :: "Vector3 \<Rightarrow> Vector3 \<Rightarrow> float32" where
  "distance posA posB =
     f_sqrt (f_add (f_add (f_pow2 (f_sub (vec_x posB) (vec_x posA)))
                          (f_pow2 (f_sub (vec_y posB) (vec_y posA))))
                   (f_pow2 (f_sub (vec_z posB) (vec_z posA))))"

text \<open>
  The closest-selection loop of \<^verbatim>\<open>MousePick\<close>, with \<^verbatim>\<open>minDistance\<close> and
  \<^verbatim>\<open>clostestGameObject\<close> as accumulators.
\<close>

fun closest_loop :: "heap \<Rightarrow> Vector3 \<Rightarrow> addr list \<Rightarrow> float32 \<Rightarrow> addr option \<Rightarrow> error + addr option" where
  "closest_loop h posB [] minDistance clostestGameObject = Inr clostestGameObject"
| "closest_loop h posB (a # as) minDistance clostestGameObject =
     (case h a of
        None \<Rightarrow> Inl DanglingPointer
      | Some gameObject \<Rightarrow>
          if f_less (distance (t_position gameObject) posB) minDistance
          then closest_loop h posB as (distance (t_position gameObject) posB) (Some a)
          else closest_loop h posB as minDistance clostestGameObject)"

text \<open>
  \<^verbatim>\<open>MousePick\<close> from the intersection loop on. The first part of the function turns
  the mouse position into a world-space ray through the matrices of the Camera
  component, which are not in the sources: the ray is a parameter.
\<close>

definition MousePick :: "Scene \<Rightarrow> Vector3 \<Rightarrow> Vector3 \<Rightarrow> error + addr option" where
  "MousePick s rayOrigin rayDirection =
     (case m_mainCamera s of
        None \<Rightarrow> Inl NullPointer
      | Some c \<Rightarrow>
          (case heap s c of
             None \<Rightarrow> Inl DanglingPointer
           | Some cam \<Rightarrow>
               if \<not> HasComponent cam TCamera then Inl NullPointer
               else
                 (case intersection_test (heap s) cam rayOrigin rayDirection (m_renderables s) of
                    Inl e \<Rightarrow> Inl e
                  | Inr intersectedGameObjects \<Rightarrow>
                      closest_loop (heap s) (t_position cam) intersectedGameObjects (Fin 1000) None)))"

subsection \<open>Persistence\<close>

text \<open>
  Modelled from the spec: the Serializer, the FileSystem helpers and the entity's own
  \<^verbatim>\<open>Serialize\<close>/\<^verbatim>\<open>Deserialize\<close> are not in the sources. A scene file holds the
  resource paths, the count of root entities (a signed 32-bit integer), the root
  identifiers and one recursive record per root; the record of an entity holds its
  data, its components and the records of its children.
\<close>

datatype EntityRecord =
  EntityRecord string string "Component list" Vector3 Vector3 "EntityRecord list"

record SceneFile =
  f_resourcePaths :: "string list"
  f_rootCount :: "32 word"
  f_rootIDs :: "string list"
  f_payloads :: "EntityRecord list"

type_synonym disk = "string \<Rightarrow> SceneFile option"

record Host =
  SCENE_EXTENSION :: string
  IsSupportedMeshFile :: "string \<Rightarrow> bool"
  IsSupportedMaterialFile :: "string \<Rightarrow> bool"
  IsSupportedImageFile :: "string \<Rightarrow> bool"

text \<open>
  Modelled from the spec: the extension of a path is its suffix from the last dot on,
  empty when the path has no dot.
\<close>

definition GetExtensionFromPath :: "string \<Rightarrow> string" where
  "GetExtensionFromPath path =
     (if CHR ''.'' \<in> set path
      then CHR ''.'' # rev (takeWhile (\<lambda>c. c \<noteq> CHR ''.'') (rev path))
      else [])"

definition FileExists :: "disk \<Rightarrow> string \<Rightarrow> bool" where
  "FileExists d path = (d path \<noteq> None)"

text \<open>
  Opening a stream can fail although the file is there; whether an open succeeds is an
  input of the model.
\<close>

definition StartReading :: "bool \<Rightarrow> disk \<Rightarrow> string \<Rightarrow> SceneFile option" where
  "StartReading opens d path = (if opens then d path else None)"

definition IsRoot :: "GameObject \<Rightarrow> bool" where
  "IsRoot go = (t_parent go = None)"

fun GetRootGameObjects_loop :: "heap \<Rightarrow> addr list \<Rightarrow> error + addr list" where
  "GetRootGameObjects_loop h [] = Inr []"
| "GetRootGameObjects_loop h (a # as) =
     (case h a of
        None \<Rightarrow> Inl DanglingPointer
      | Some go \<Rightarrow>
          (case GetRootGameObjects_loop h as of
             Inl e \<Rightarrow> Inl e
           | Inr rest \<Rightarrow> Inr (if IsRoot go then a # rest else rest)))"

definition GetRootGameObjects :: "Scene \<Rightarrow> error + addr list" where
  "GetRootGameObjects s = GetRootGameObjects_loop (heap s) (m_gameObjects s)"

text \<open>
  Modelled from the spec: serialising an entity writes its data and components and,
  recursively, its descendants. The fuel bounds the depth of the recursion.
\<close>

fun Serialize :: "nat \<Rightarrow> heap \<Rightarrow> addr \<Rightarrow> error + EntityRecord"
  and Serialize_all :: "nat \<Rightarrow> heap \<Rightarrow> addr list \<Rightarrow> error + EntityRecord list" where
  "Serialize 0 h a = Inl OutOfFuel"
| "Serialize (Suc n) h a =
     (case h a of
        None \<Rightarrow> Inl DanglingPointer
      | Some go \<Rightarrow>
          (case Serialize_all n h (t_children go) of
             Inl e \<Rightarrow> Inl e
           | Inr kids \<Rightarrow>
               Inr (EntityRecord (m_ID go) (m_name go) (m_components go)
                      (t_position go) (t_forward go) kids)))"
| "Serialize_all n h [] = Inr []"
| "Serialize_all n h (a # as) =
     (case Serialize n h a of
        Inl e \<Rightarrow> Inl e
      | Inr r \<Rightarrow>
          (case Serialize_all n h as of
             Inl e \<Rightarrow> Inl e
           | Inr rs \<Rightarrow> Inr (r # rs)))"

fun root_IDs :: "heap \<Rightarrow> addr list \<Rightarrow> error + string list" where
  "root_IDs h [] = Inr []"
| "root_IDs h (a # as) =
     (case h a of
        None \<Rightarrow> Inl DanglingPointer
      | Some go \<Rightarrow>
          (case root_IDs h as of
             Inl e \<Rightarrow> Inl e
           | Inr ids \<Rightarrow> Inr (m_ID go # ids)))"

text \<open>
  \<^verbatim>\<open>SaveToFile\<close>. \<open>opens\<close> tells whether \<^verbatim>\<open>StartWriting\<close> succeeds. The result is the
  boolean the function returns and the disk after it.
\<close>

definition SaveToFile :: "nat \<Rightarrow> Host \<Rightarrow> bool \<Rightarrow> disk \<Rightarrow> string \<Rightarrow> Scene \<Rightarrow> error + (bool \<times> disk)" where
  "SaveToFile fuel host opens d filePathIn s =
     (let filePath = (if GetExtensionFromPath filePathIn \<noteq> SCENE_EXTENSION host
                      then filePathIn @ SCENE_EXTENSION host else filePathIn)
      in if \<not> opens then Inr (False, d)
         else
           (case GetRootGameObjects s of
              Inl e \<Rightarrow> Inl e
            | Inr rootGameObjects \<Rightarrow>
                (case root_IDs (heap s) rootGameObjects of
                   Inl e \<Rightarrow> Inl e
                 | Inr ids \<Rightarrow>
                     (case Serialize_all fuel (heap s) rootGameObjects of
                        Inl e \<Rightarrow> Inl e
                      | Inr payloads \<Rightarrow>
                          Inr (True, d(filePath \<mapsto>
                            \<lparr> f_resourcePaths = resources s,
                              f_rootCount = word_of_nat (length rootGameObjects),
                              f_rootIDs = ids,
                              f_payloads = payloads \<rparr>))))))"

text \<open>
  Modelled from the spec: deserialising an entity reads its data and components and
  then its descendants, each created, appended to the registry and linked to it as it
  proceeds.
\<close>

definition add_child :: "addr \<Rightarrow> addr \<Rightarrow> heap \<Rightarrow> heap" where
  "add_child p c h =
     (case h p of
        None \<Rightarrow> h
      | Some gp \<Rightarrow> h(p \<mapsto> set_children (t_children gp @ [c]) gp))"

fun Deserialize :: "EntityRecord \<Rightarrow> addr \<Rightarrow> addr option \<Rightarrow> Scene \<Rightarrow> Scene"
  and Deserialize_children :: "EntityRecord list \<Rightarrow> addr \<Rightarrow> Scene \<Rightarrow> Scene" where
  "Deserialize (EntityRecord i n cs pos fwd kids) a parent s =
     Deserialize_children kids a
       (s\<lparr> heap := (heap s)(a \<mapsto> \<lparr> m_ID = i, m_name = n, m_components = cs, t_position = pos,
              t_forward = fwd, t_parent = parent, t_children = [] \<rparr>) \<rparr>)"
| "Deserialize_children [] a s = s"
| "Deserialize_children (k # ks) a s =
     (let c = next_free s;
          s1 = Deserialize k c (Some a) (push_new [] s)
      in Deserialize_children ks a (s1\<lparr> heap := add_child a c (heap s1) \<rparr>))"

text \<open>
  The resource loop of \<^verbatim>\<open>LoadFromFile\<close>. Modelled from the spec: the ResourceManager
  is not in the sources; loading a resource of any of the three kinds adds its path to
  the resource cache, and a path of no supported kind is skipped.
\<close>

fun load_resources :: "Host \<Rightarrow> string list \<Rightarrow> Scene \<Rightarrow> Scene" where
  "load_resources host [] s = s"
| "load_resources host (resourcePath # rest) s =
     (if IsSupportedMeshFile host resourcePath
      then load_resources host rest (s\<lparr> resources := resources s @ [resourcePath] \<rparr>)
      else if IsSupportedMaterialFile host resourcePath
      then load_resources host rest (s\<lparr> resources := resources s @ [resourcePath] \<rparr>)
      else if IsSupportedImageFile host resourcePath
      then load_resources host rest (s\<lparr> resources := resources s @ [resourcePath] \<rparr>)
      else load_resources host rest s)"

text \<open>The second loop of \<^verbatim>\<open>LoadFromFile\<close>: one new entity per root, with the identifier read.\<close>

fun read_root_IDs :: "nat \<Rightarrow> string list \<Rightarrow> Scene \<Rightarrow> error + Scene" where
  "read_root_IDs 0 ids s = Inr s"
| "read_root_IDs (Suc n) [] s = Inl MalformedStream"
| "read_root_IDs (Suc n) (i # ids) s = read_root_IDs n ids (push_new i s)"

text \<open>The third loop: \<^verbatim>\<open>m_gameObjects[i]->Deserialize(nullptr)\<close> for the first roots.\<close>

fun deserialize_roots :: "nat \<Rightarrow> nat \<Rightarrow> EntityRecord list \<Rightarrow> Scene \<Rightarrow> error + Scene" where
  "deserialize_roots i 0 payloads s = Inr s"
| "deserialize_roots i (Suc n) [] s = Inl MalformedStream"
| "deserialize_roots i (Suc n) (r # rs) s =
     (if i < length (m_gameObjects s)
      then deserialize_roots (Suc i) n rs (Deserialize r (m_gameObjects s ! i) None s)
      else Inl DanglingPointer)"

text \<open>
  \<^verbatim>\<open>LoadFromFile\<close>. \<open>opens1\<close> and \<open>opens2\<close> tell whether the first and the second
  \<^verbatim>\<open>StartReading\<close> succeed. The result is the boolean returned and the scene after it.
\<close>

definition LoadFromFile :: "Host \<Rightarrow> bool \<Rightarrow> bool \<Rightarrow> disk \<Rightarrow> string \<Rightarrow> Scene \<Rightarrow> error + (bool \<times> Scene)" where
  "LoadFromFile host opens1 opens2 d filePath s =
     (if \<not> FileExists d filePath then Inr (False, s)
      else
        (let s1 = Clear s in
         case StartReading opens1 d filePath of
           None \<Rightarrow> Inr (False, s1)
         | Some f1 \<Rightarrow>
             (let s2 = load_resources host (f_resourcePaths f1) s1 in
              case StartReading opens2 d filePath of
                None \<Rightarrow> Inr (False, s2)
              | Some f2 \<Rightarrow>
                  (let rootGameObjectCount = nat (sint (f_rootCount f2)) in
                   case read_root_IDs rootGameObjectCount (f_rootIDs f2) s2 of
                     Inl e \<Rightarrow> Inl e
                   | Inr s3 \<Rightarrow>
                       (case deserialize_roots 0 rootGameObjectCount (f_payloads f2) s3 of
                          Inl e \<Rightarrow> Inl e
                        | Inr s4 \<Rightarrow>
                            (case Resolve s4 of
                               Inl e \<Rightarrow> Inl e
                             | Inr s5 \<Rightarrow> Inr (True, s5)))))))"

subsection \<open>Characterisations used in the statements\<close>

text \<open>
  The classification of a list of entities, added to the caches of \<open>s\<close>: renderables
  and lights in list order, camera and skybox the last entity carrying the component
  (the former value when there is none).
\<close>

definition keep_last :: "'a option \<Rightarrow> 'a list \<Rightarrow> 'a option" where
  "keep_last d xs = (case last_option xs of None \<Rightarrow> d | Some a \<Rightarrow> Some a)"

definition classified :: "addr list \<Rightarrow> Scene \<Rightarrow> Scene" where
  "classified as s = s\<lparr>
     m_renderables := m_renderables s @ filter (is_renderable (heap s)) as,
     m_lightsDirectional := m_lightsDirectional s @ filter (is_light (heap s) Directional) as,
     m_lightsPoint := m_lightsPoint s @ filter (is_light (heap s) Point) as,
     m_mainCamera := keep_last (m_mainCamera s) (filter (has_type (heap s) TCamera) as),
     m_skybox := keep_last (m_skybox s) (filter (has_type (heap s) TSkybox) as) \<rparr>"

text \<open>The identifier of the entity behind a pointer.\<close>

definition ID_at :: "heap \<Rightarrow> addr \<Rightarrow> string option" where
  "ID_at h a = map_option m_ID (h a)"

subsection \<open>Sequences of operations\<close>





subsection \<open>Characterisations of the hierarchy\<close>

text \<open>The parent link and the child links of the entity behind a pointer.\<close>

definition parent_at :: "heap \<Rightarrow> addr \<Rightarrow> addr option" where
  "parent_at h a = (case h a of None \<Rightarrow> None | Some go \<Rightarrow> t_parent go)"

definition children_at :: "heap \<Rightarrow> addr \<Rightarrow> addr list" where
  "children_at h a = (case h a of None \<Rightarrow> [] | Some go \<Rightarrow> t_children go)"


subsection \<open>Example scenes\<close>

definition entity :: "string \<Rightarrow> Component list \<Rightarrow> GameObject" where
  "entity i cs = (new_GameObject i)\<lparr> m_components := cs \<rparr>"

text \<open>Two cameras and two skyboxes, with stale caches.\<close>

definition scene_two_cameras :: Scene where
  "scene_two_cameras = \<lparr>
     heap = [0 \<mapsto> entity ''a'' [Camera, Script], 1 \<mapsto> entity ''b'' [Skybox, LineRenderer],
             2 \<mapsto> entity ''c'' [Camera, Skybox], 3 \<mapsto> entity ''d'' [Light Point]],
     m_gameObjects = [0, 1, 2, 3], m_renderables = [7], m_lightsDirectional = [8],
     m_lightsPoint = [], m_mainCamera = Some 0, m_skybox = None, resources = [], next_free = 4 \<rparr>"

text \<open>A host configuration and a scene file without entities.\<close>

definition empty_file :: SceneFile where
  "empty_file = \<lparr> f_resourcePaths = [''a.png''], f_rootCount = 0, f_rootIDs = [], f_payloads = [] \<rparr>"

definition host0 :: Host where
  "host0 = \<lparr> SCENE_EXTENSION = ''.directus'', IsSupportedMeshFile = (\<lambda>p. False),
     IsSupportedMaterialFile = (\<lambda>p. False), IsSupportedImageFile = (\<lambda>p. True) \<rparr>"

subsection \<open>Characterisations of picking\<close>

text \<open>
  The radius of the bounding sphere of an entity, its distance from a point, and the test
  a renderable has to pass in the intersection loop. \<open>pickable\<close> says that the loop can
  read the entity: it is live and is a skybox or has a mesh filter.
\<close>

definition radius_at :: "heap \<Rightarrow> addr \<Rightarrow> float32" where
  "radius_at h a =
     (case h a of
        None \<Rightarrow> NaN
      | Some go \<Rightarrow> (case GetComponent go TMeshFilter of Some (MeshFilter extent) \<Rightarrow> bounding_radius extent | _ \<Rightarrow> NaN))"

definition distance_at :: "heap \<Rightarrow> Vector3 \<Rightarrow> addr \<Rightarrow> float32" where
  "distance_at h posB a = (case h a of None \<Rightarrow> NaN | Some go \<Rightarrow> distance (t_position go) posB)"

definition pickable :: "heap \<Rightarrow> addr \<Rightarrow> bool" where
  "pickable h a =
     (case h a of
        None \<Rightarrow> False
      | Some go \<Rightarrow> HasComponent go TSkybox \<or> HasComponent go TMeshFilter)"

definition survives :: "heap \<Rightarrow> GameObject \<Rightarrow> Vector3 \<Rightarrow> Vector3 \<Rightarrow> addr \<Rightarrow> bool" where
  "survives h cam rayOrigin rayDirection a =
     (\<not> has_type h TSkybox a
      \<and> RaySphereIntersect rayOrigin rayDirection (radius_at h a)
      \<and> \<not> RaySphereIntersect (t_position cam) (t_forward cam) (radius_at h a))"

text \<open>A camera at \<open>(0, 0, -5)\<close> with a given forward vector, and two renderables.\<close>

definition vec :: "rat \<Rightarrow> rat \<Rightarrow> rat \<Rightarrow> Vector3" where
  "vec a b c = \<lparr> vec_x = Fin a, vec_y = Fin b, vec_z = Fin c \<rparr>"

definition pick_scene :: "Vector3 \<Rightarrow> Vector3 \<Rightarrow> Vector3 \<Rightarrow> Scene" where
  "pick_scene fwd pos1 pos2 = \<lparr>
     heap = [0 \<mapsto> (entity ''cam'' [Camera])\<lparr> t_position := vec 0 0 (-5), t_forward := fwd \<rparr>,
             1 \<mapsto> (entity ''ball'' [MeshFilter (vec 1 1 1), MeshRenderer])\<lparr> t_position := pos1 \<rparr>,
             2 \<mapsto> (entity ''cube'' [MeshRenderer, MeshFilter (vec 1 (-2) 1)])\<lparr> t_position := pos2 \<rparr>],
     m_gameObjects = [0, 1, 2], m_renderables = [1, 2], m_lightsDirectional = [],
     m_lightsPoint = [], m_mainCamera = Some 0, m_skybox = None, resources = [], next_free = 3 \<rparr>"



subsection \<open>The hierarchy invariant\<close>


text \<open>\<open>reach h a d\<close>: following parent links from \<open>d\<close> leads to \<open>a\<close> (in zero or more steps).\<close>

inductive reach :: "heap \<Rightarrow> addr \<Rightarrow> addr \<Rightarrow> bool" for h :: heap and a :: addr where
  reach_self: "reach h a a"
| reach_child: "parent_at h d = Some q \<Longrightarrow> reach h a q \<Longrightarrow> reach h a d"


text \<open>
  A family: entity 0 is a root with the children 1 and 5; entity 1 has the children 2
  and 3; entity 2 has the child 4.
\<close>

definition member :: "string \<Rightarrow> Component list \<Rightarrow> addr option \<Rightarrow> addr list \<Rightarrow> GameObject" where
  "member i cs p kids = (entity i cs)\<lparr> t_parent := p, t_children := kids \<rparr>"



subsection \<open>The round-trip scene\<close>

text \<open>
  The scene of the round trip: A (a root with a Camera), B (a root with a directional
  Light) and C (a child of B with a MeshRenderer and a MeshFilter), with given
  identifiers and loaded resource paths.
\<close>

definition abc_scene :: "string \<Rightarrow> string \<Rightarrow> string \<Rightarrow> string list \<Rightarrow> Scene" where
  "abc_scene ia ib ic rs = \<lparr>
     heap = [0 \<mapsto> member ia [Camera] None [],
             1 \<mapsto> member ib [Light Directional] None [2],
             2 \<mapsto> member ic [MeshRenderer, MeshFilter (vec 1 1 1)] (Some 1) []],
     m_gameObjects = [0, 1, 2], m_renderables = [2], m_lightsDirectional = [1],
     m_lightsPoint = [], m_mainCamera = Some 0, m_skybox = None, resources = rs, next_free = 3 \<rparr>"

definition abc_file :: "string \<Rightarrow> string \<Rightarrow> string \<Rightarrow> string list \<Rightarrow> SceneFile" where
  "abc_file ia ib ic rs =
         \<lparr> f_resourcePaths = rs, f_rootCount = 2, f_rootIDs = [ia, ib],
           f_payloads = [EntityRecord ia ''GameObject'' [Camera] zero_vector forward_vector [],
                         EntityRecord ib ''GameObject'' [Light Directional] zero_vector forward_vector
                           [EntityRecord ic ''GameObject'' [MeshRenderer, MeshFilter (vec 1 1 1)]
                              zero_vector forward_vector []]] \<rparr>"

text \<open>The identifier of the parent and the identifiers of the children of an entity.\<close>

definition parent_ID :: "heap \<Rightarrow> addr \<Rightarrow> string option" where
  "parent_ID h a = (case parent_at h a of None \<Rightarrow> None | Some p \<Rightarrow> ID_at h p)"

definition children_IDs :: "heap \<Rightarrow> addr \<Rightarrow> string option list" where
  "children_IDs h a = map (ID_at h) (children_at h a)"

text \<open>The real number a finite \<^verbatim>\<open>float\<close> stands for, and the exact Euclidean distance.\<close>

fun f_val :: "float32 \<Rightarrow> real" where
  "f_val (Fin a) = of_rat a"
| "f_val PInf = 0"
| "f_val NInf = 0"
| "f_val NaN = 0"

definition exact_distance :: "Vector3 \<Rightarrow> Vector3 \<Rightarrow> real" where
  "exact_distance posA posB =
     sqrt ((f_val (vec_x posB) - f_val (vec_x posA))\<^sup>2 + (f_val (vec_y posB) - f_val (vec_y posA))\<^sup>2
           + (f_val (vec_z posB) - f_val (vec_z posA))\<^sup>2)"

section \<open>Properties\<close>

subsection \<open>Resolve\<close>

lemma HasComponent_iff_GetComponent: "HasComponent go ty \<longleftrightarrow> GetComponent go ty \<noteq> None"
  by (auto simp: GetComponent_def HasComponent_def find_None_iff list_ex_iff)

lemma GetComponent_type: "GetComponent go ty = Some c \<Longrightarrow> component_type c = ty"
  by (auto simp: GetComponent_def dest: find_Some_iff[THEN iffD1])

lemma GetComponent_Light: "GetComponent go TLight = Some c \<Longrightarrow> \<exists>t. c = Light t"
  by (drule GetComponent_type) (cases c; simp)

lemma heap_Resolve_body [simp]: "heap (Resolve_body a go s) = heap s"
  by (simp add: Resolve_body_def find_lights_def find_renderables_def find_skybox_def find_camera_def
      split: option.splits Component.splits LightType.splits)

lemma keep_last_Nil [simp]: "keep_last d [] = d"
  by (simp add: keep_last_def last_option_def)

lemma keep_last_Cons: "keep_last d (x # xs) = keep_last (Some x) xs"
  by (cases xs) (simp_all add: keep_last_def last_option_def)

lemma keep_last_None: "keep_last None xs = last_option xs"
  by (simp add: keep_last_def split: option.splits)

lemma Resolve_body_classified:
  assumes "heap s a = Some go"
  shows "Resolve_body a go s = classified [a] s"
proof (cases "GetComponent go TLight")
  case None
  with assms show ?thesis
    by (simp add: Resolve_body_def find_lights_def find_renderables_def find_skybox_def
        find_camera_def classified_def is_renderable_def is_light_def has_type_def
        HasComponent_iff_GetComponent keep_last_Cons)
next
  case (Some c)
  then obtain t where "c = Light t" by (auto dest: GetComponent_Light)
  with Some assms show ?thesis
    by (cases t) (simp_all add: Resolve_body_def find_lights_def find_renderables_def find_skybox_def
        find_camera_def classified_def is_renderable_def is_light_def has_type_def
        HasComponent_iff_GetComponent keep_last_Cons)
qed

lemma classified_Cons: "classified as (classified [a] s) = classified (a # as) s"
  by (simp add: classified_def keep_last_Cons)

lemma Resolve_loop_classified:
  "list_all (\<lambda>a. heap s a \<noteq> None) as \<Longrightarrow> Resolve_loop as s = Inr (classified as s)"
proof (induction as arbitrary: s)
  case Nil
  show ?case by (simp add: classified_def)
next
  case (Cons a as)
  then obtain go where go: "heap s a = Some go" by auto
  have "list_all (\<lambda>b. heap (classified [a] s) b \<noteq> None) as"
    using Cons.prems by (simp add: classified_def)
  from Cons.IH[OF this] go show ?case
    by (simp add: Resolve_body_classified classified_Cons)
qed


lemma Resolve_eq:
  "registry_live s \<Longrightarrow> Resolve s = Inr (classified (m_gameObjects s) (clear_caches s))"
  unfolding Resolve_def registry_live_def
  by (rule Resolve_loop_classified) (simp add: clear_caches_def)

text \<open>
  Claim C2. On a registry of live entities \<^verbatim>\<open>Resolve\<close> returns the scene whose caches
  are rebuilt from nothing in one pass in registry order: the renderables and the lights
  are the matching entities in that order, and the active camera (skybox) is the last
  entity of the registry that carries a Camera (Skybox) component, \<open>None\<close> when no
  entity does. The former contents of the caches have no influence.
\<close>

theorem Resolve_rebuilds_last_wins:
  assumes "registry_live s"
  shows "Resolve s = Inr (s\<lparr>
     m_renderables := filter (is_renderable (heap s)) (m_gameObjects s),
     m_lightsDirectional := filter (is_light (heap s) Directional) (m_gameObjects s),
     m_lightsPoint := filter (is_light (heap s) Point) (m_gameObjects s),
     m_mainCamera := last_option (filter (has_type (heap s) TCamera) (m_gameObjects s)),
     m_skybox := last_option (filter (has_type (heap s) TSkybox) (m_gameObjects s)) \<rparr>)"
  using Resolve_eq[OF assms]
  by (simp add: classified_def clear_caches_def keep_last_None)

theorem Resolve_rebuilds_last_wins_witness:
  "registry_live scene_two_cameras \<and>
   Resolve scene_two_cameras = Inr (scene_two_cameras\<lparr> m_renderables := [],
     m_lightsDirectional := [], m_lightsPoint := [3], m_mainCamera := Some 2, m_skybox := Some 2 \<rparr>)"
proof -
  have live: "registry_live scene_two_cameras"
    by (simp add: registry_live_def scene_two_cameras_def)
  show ?thesis
    using live Resolve_rebuilds_last_wins[OF live]
    by (simp add: scene_two_cameras_def is_renderable_def is_light_def has_type_def
        HasComponent_def GetComponent_def entity_def last_option_def)
qed

subsection \<open>Lookup\<close>

lemma scan_by_ID_find:
  "list_all (\<lambda>a. h a \<noteq> None) as \<Longrightarrow> scan_by_ID h i as = Inr (find (\<lambda>a. ID_at h a = Some i) as)"
  by (induction as) (auto simp: ID_at_def)

text \<open>
  Claim C9. On a registry of live entities \<^verbatim>\<open>GetGameObjectByID\<close> returns the first
  entity of the registry, in registry order, whose identifier is the one asked for, and
  null exactly when no registered entity has that identifier. \<^verbatim>\<open>GameObjectExists\<close>
  returns false for the null pointer and otherwise tells whether some registered entity
  has the identifier of its argument.
\<close>

theorem lookup_by_ID:
  assumes "registry_live s"
  shows "GetGameObjectByID s i = Inr (find (\<lambda>a. ID_at (heap s) a = Some i) (m_gameObjects s))
    \<and> (GetGameObjectByID s i = Inr None \<longleftrightarrow> (\<forall>a \<in> set (m_gameObjects s). ID_at (heap s) a \<noteq> Some i))
    \<and> GameObjectExists s None = Inr False
    \<and> (\<forall>a go. heap s a = Some go \<longrightarrow>
          GameObjectExists s (Some a) = Inr (\<exists>b \<in> set (m_gameObjects s). ID_at (heap s) b = Some (m_ID go)))"
proof -
  have scan: "\<And>j. GetGameObjectByID s j = Inr (find (\<lambda>a. ID_at (heap s) a = Some j) (m_gameObjects s))"
    using assms unfolding GetGameObjectByID_def registry_live_def by (rule scan_by_ID_find)
  have none: "\<And>j. find (\<lambda>a. ID_at (heap s) a = Some j) (m_gameObjects s) = None
      \<longleftrightarrow> (\<forall>a \<in> set (m_gameObjects s). ID_at (heap s) a \<noteq> Some j)"
    by (auto simp: find_None_iff)
  have ex: "GameObjectExists s (Some a) = Inr (\<exists>b \<in> set (m_gameObjects s). ID_at (heap s) b = Some (m_ID go))"
    if "heap s a = Some go" for a go
    using that by (simp add: GameObjectExists_def scan none)
  show ?thesis
    using ex by (simp add: scan none GameObjectExists_def)
qed

theorem lookup_by_ID_witness:
  "registry_live scene_two_cameras
   \<and> GetGameObjectByID scene_two_cameras ''c'' = Inr (Some 2)
   \<and> GetGameObjectByID scene_two_cameras ''zz'' = Inr None
   \<and> GameObjectExists scene_two_cameras None = Inr False
   \<and> GameObjectExists scene_two_cameras (Some 1) = Inr True"
proof -
  have live: "registry_live scene_two_cameras"
    by (simp add: registry_live_def scene_two_cameras_def)
  have h1: "heap scene_two_cameras 1 = Some (entity ''b'' [Skybox, LineRenderer])"
    by (simp add: scene_two_cameras_def)
  show ?thesis
    using live lookup_by_ID[OF live, of "''c''"] lookup_by_ID[OF live, of "''zz''"]
      lookup_by_ID[OF live, of "''b''", THEN conjunct2, THEN conjunct2, THEN conjunct2, rule_format, OF h1]
    by (simp add: scene_two_cameras_def ID_at_def entity_def new_GameObject_def)
qed

subsection \<open>Failures of LoadFromFile\<close>

lemma m_gameObjects_load_resources [simp]:
  "m_gameObjects (load_resources host paths s) = m_gameObjects s"
  by (induction paths arbitrary: s) simp_all

text \<open>
  Claim C6. When no file exists at the path, \<^verbatim>\<open>LoadFromFile\<close> returns false and the
  scene is unchanged. When the file exists and the first or the second opening of the read
  stream fails, it returns false, after \<^verbatim>\<open>Clear\<close>, with an empty registry. In each
  case the failure is the boolean result, not an error.
\<close>

theorem LoadFromFile_failures:
  "(\<not> FileExists d path \<longrightarrow> LoadFromFile host opens1 opens2 d path s = Inr (False, s))
   \<and> (FileExists d path \<longrightarrow>
        LoadFromFile host False opens2 d path s = Inr (False, Clear s)
        \<and> m_gameObjects (Clear s) = [])
   \<and> (FileExists d path \<longrightarrow>
        (\<exists>s'. LoadFromFile host True False d path s = Inr (False, s') \<and> m_gameObjects s' = []))"
  by (auto simp: LoadFromFile_def StartReading_def FileExists_def Clear_def Let_def)

theorem LoadFromFile_failures_witness:
  "\<not> FileExists (\<lambda>p. None) ''x.directus''
   \<and> LoadFromFile host0 True True (\<lambda>p. None) ''x.directus'' scene_two_cameras = Inr (False, scene_two_cameras)
   \<and> FileExists [''x.directus'' \<mapsto> empty_file] ''x.directus''
   \<and> LoadFromFile host0 False True [''x.directus'' \<mapsto> empty_file] ''x.directus'' scene_two_cameras
       = Inr (False, Clear scene_two_cameras)
   \<and> m_gameObjects (Clear scene_two_cameras) = []
   \<and> m_gameObjects scene_two_cameras \<noteq> []"
proof -
  have no: "\<not> FileExists (\<lambda>p. None) ''x.directus''"
    by (simp add: FileExists_def)
  have yes: "FileExists [''x.directus'' \<mapsto> empty_file] ''x.directus''"
    by (simp add: FileExists_def)
  show ?thesis
    using no yes
      LoadFromFile_failures[where d = "\<lambda>p. None" and path = "''x.directus''" and host = host0
        and ?opens1.0 = True and ?opens2.0 = True and s = scene_two_cameras]
      LoadFromFile_failures[where d = "[''x.directus'' \<mapsto> empty_file]" and path = "''x.directus''"
        and host = host0 and ?opens2.0 = True and s = scene_two_cameras]
    by (simp add: scene_two_cameras_def)
qed

subsection \<open>The caches under creation and removal\<close>




















subsection \<open>Removal\<close>

















subsection \<open>Descendants in a hierarchy\<close>







subsection \<open>RemoveGameObject\<close>














subsection \<open>Save, clear and load\<close>

lemma GetExtensionFromPath_x: "GetExtensionFromPath ''x'' = []"
  by (simp add: GetExtensionFromPath_def)

lemma load_resources_fields [simp]:
  "heap (load_resources host paths s) = heap s"
  "next_free (load_resources host paths s) = next_free s"
  "m_renderables (load_resources host paths s) = m_renderables s"
  "m_lightsDirectional (load_resources host paths s) = m_lightsDirectional s"
  "m_lightsPoint (load_resources host paths s) = m_lightsPoint s"
  "m_mainCamera (load_resources host paths s) = m_mainCamera s"
  "m_skybox (load_resources host paths s) = m_skybox s"
  by (induction paths arbitrary: s) simp_all

lemma save_abc:
  "SaveToFile 3 host True d ''x'' (abc_scene ia ib ic rs)
     = Inr (True, d(''x'' @ SCENE_EXTENSION host \<mapsto>
         \<lparr> f_resourcePaths = rs, f_rootCount = 2, f_rootIDs = [ia, ib],
           f_payloads = [EntityRecord ia ''GameObject'' [Camera] zero_vector forward_vector [],
                         EntityRecord ib ''GameObject'' [Light Directional] zero_vector forward_vector
                           [EntityRecord ic ''GameObject'' [MeshRenderer, MeshFilter (vec 1 1 1)]
                              zero_vector forward_vector []]] \<rparr>))"
  by (cases "SCENE_EXTENSION host = []")
    (simp_all add: SaveToFile_def GetExtensionFromPath_x GetRootGameObjects_def IsRoot_def abc_scene_def
      member_def entity_def new_GameObject_def numeral_eq_Suc)


lemma sint_2: "sint (2 :: 32 word) = 2"
  by simp

lemma load_abc:
  assumes "d path = Some (abc_file ia ib ic rs)"
  shows "\<exists>s'. LoadFromFile host True True d path (Clear (abc_scene ia ib ic rs)) = Inr (True, s')
     \<and> m_gameObjects s' = [3, 4, 5]
     \<and> map (ID_at (heap s')) (m_gameObjects s') = [Some ia, Some ib, Some ic]
     \<and> map (parent_ID (heap s')) (m_gameObjects s') = [None, None, Some ib]
     \<and> map (children_IDs (heap s')) (m_gameObjects s') = [[], [Some ic], []]
     \<and> m_mainCamera s' = Some 3
     \<and> m_lightsDirectional s' = [4]
     \<and> m_lightsPoint s' = []
     \<and> m_renderables s' = [5]
     \<and> m_skybox s' = None"
  using assms
  by (simp add: LoadFromFile_def FileExists_def StartReading_def Clear_def abc_scene_def abc_file_def
      push_new_def add_child_def set_children_def numeral_eq_Suc
      Resolve_def clear_caches_def Resolve_body_def find_camera_def find_skybox_def
      find_renderables_def find_lights_def HasComponent_def GetComponent_def
      ID_at_def parent_at_def children_at_def parent_ID_def children_IDs_def new_GameObject_def Let_def)


lemma abc_structure:
  "m_gameObjects (abc_scene ia ib ic rs) = [0, 1, 2]"
  "map (ID_at (heap (abc_scene ia ib ic rs))) (m_gameObjects (abc_scene ia ib ic rs)) = [Some ia, Some ib, Some ic]"
  "map (parent_ID (heap (abc_scene ia ib ic rs))) (m_gameObjects (abc_scene ia ib ic rs)) = [None, None, Some ib]"
  "map (children_IDs (heap (abc_scene ia ib ic rs))) (m_gameObjects (abc_scene ia ib ic rs)) = [[], [Some ic], []]"
  by (simp_all add: abc_scene_def ID_at_def parent_at_def children_at_def parent_ID_def children_IDs_def
      member_def entity_def new_GameObject_def)

text \<open>
  Claim C1. For the scene with A (root, Camera), B (root, directional Light) and C
  (child of B, MeshRenderer and MeshFilter) at the registry positions 0, 1 and 2:
  \<^verbatim>\<open>SaveToFile("x")\<close> succeeds and writes the file at \<open>x\<close> followed by the scene
  extension; after \<^verbatim>\<open>Clear\<close>, \<^verbatim>\<open>LoadFromFile\<close> of that path succeeds, and the reloaded
  registry has as many entities, with the same identifiers in the same order, the same
  parent and the same children (by identifier) for each, and caches in which the entity
  at position 0 is the active camera, the one at position 1 the only directional light
  and the one at position 2 the only renderable.
\<close>

theorem save_then_load_round_trip:
  "\<exists>d' s'. SaveToFile 3 host True d ''x'' (abc_scene ia ib ic rs) = Inr (True, d')
     \<and> d' = d(''x'' @ SCENE_EXTENSION host \<mapsto> abc_file ia ib ic rs)
     \<and> LoadFromFile host True True d' (''x'' @ SCENE_EXTENSION host) (Clear (abc_scene ia ib ic rs))
         = Inr (True, s')
     \<and> length (m_gameObjects s') = length (m_gameObjects (abc_scene ia ib ic rs))
     \<and> map (ID_at (heap s')) (m_gameObjects s')
         = map (ID_at (heap (abc_scene ia ib ic rs))) (m_gameObjects (abc_scene ia ib ic rs))
     \<and> map (parent_ID (heap s')) (m_gameObjects s')
         = map (parent_ID (heap (abc_scene ia ib ic rs))) (m_gameObjects (abc_scene ia ib ic rs))
     \<and> map (children_IDs (heap s')) (m_gameObjects s')
         = map (children_IDs (heap (abc_scene ia ib ic rs))) (m_gameObjects (abc_scene ia ib ic rs))
     \<and> m_mainCamera s' = Some (m_gameObjects s' ! 0)
     \<and> m_lightsDirectional s' = [m_gameObjects s' ! 1]
     \<and> m_renderables s' = [m_gameObjects s' ! 2]
     \<and> m_lightsPoint s' = [] \<and> m_skybox s' = None"
proof -
  let ?d' = "d(''x'' @ SCENE_EXTENSION host \<mapsto> abc_file ia ib ic rs)"
  have save: "SaveToFile 3 host True d ''x'' (abc_scene ia ib ic rs) = Inr (True, ?d')"
    by (simp add: save_abc abc_file_def)
  have "?d' (''x'' @ SCENE_EXTENSION host) = Some (abc_file ia ib ic rs)" by simp
  from load_abc[where d = ?d' and path = "''x'' @ SCENE_EXTENSION host" and host = host, OF this]
  obtain s' where all: "LoadFromFile host True True ?d' (''x'' @ SCENE_EXTENSION host)
        (Clear (abc_scene ia ib ic rs)) = Inr (True, s')
     \<and> m_gameObjects s' = [3, 4, 5]
     \<and> map (ID_at (heap s')) (m_gameObjects s') = [Some ia, Some ib, Some ic]
     \<and> map (parent_ID (heap s')) (m_gameObjects s') = [None, None, Some ib]
     \<and> map (children_IDs (heap s')) (m_gameObjects s') = [[], [Some ic], []]
     \<and> m_mainCamera s' = Some 3
     \<and> m_lightsDirectional s' = [4]
     \<and> m_lightsPoint s' = []
     \<and> m_renderables s' = [5]
     \<and> m_skybox s' = None" ..
  then have s': "LoadFromFile host True True ?d' (''x'' @ SCENE_EXTENSION host)
        (Clear (abc_scene ia ib ic rs)) = Inr (True, s')"
    "m_gameObjects s' = [3, 4, 5]"
    "map (ID_at (heap s')) (m_gameObjects s') = [Some ia, Some ib, Some ic]"
    "map (parent_ID (heap s')) (m_gameObjects s') = [None, None, Some ib]"
    "map (children_IDs (heap s')) (m_gameObjects s') = [[], [Some ic], []]"
    "m_mainCamera s' = Some 3" "m_lightsDirectional s' = [4]" "m_lightsPoint s' = []"
    "m_renderables s' = [5]" "m_skybox s' = None"
    by blast+
  have pos: "m_gameObjects s' ! 0 = 3" "m_gameObjects s' ! 1 = 4" "m_gameObjects s' ! 2 = 5"
    "length (m_gameObjects s') = 3"
    using s'(2) by simp_all
  have len: "length (m_gameObjects (abc_scene ia ib ic rs)) = 3"
    by (simp add: abc_structure(1))
  show ?thesis
    using save s'(1) s'(3-10) pos
    by (simp add: abc_structure(2-4) len)
qed

subsection \<open>Picking\<close>

lemma f_less_trans: "f_less x y \<Longrightarrow> f_less y z \<Longrightarrow> f_less x z"
  by (cases x; cases y; cases z) simp_all

lemma f_less_total: "x \<noteq> NaN \<Longrightarrow> \<not> f_less x m \<Longrightarrow> f_less y m \<Longrightarrow> f_less y x"
  by (cases x; cases y; cases m) simp_all

lemma GetComponent_MeshFilter: "GetComponent go TMeshFilter = Some c \<Longrightarrow> \<exists>e. c = MeshFilter e"
  by (drule GetComponent_type) (cases c; simp)

lemma intersection_test_filter:
  "list_all (pickable h) rs \<Longrightarrow>
   intersection_test h cam ro rd rs = Inr (filter (survives h cam ro rd) rs)"
proof (induction rs)
  case Nil
  show ?case by simp
next
  case (Cons a rs)
  then obtain go where go: "h a = Some go" and p: "HasComponent go TSkybox \<or> HasComponent go TMeshFilter"
    by (auto simp: pickable_def split: option.splits)
  have IH: "intersection_test h cam ro rd rs = Inr (filter (survives h cam ro rd) rs)"
    using Cons by simp
  show ?case
  proof (cases "HasComponent go TSkybox")
    case True
    with go have "\<not> survives h cam ro rd a" by (simp add: survives_def has_type_def)
    with True go IH show ?thesis by simp
  next
    case False
    with p obtain c where "GetComponent go TMeshFilter = Some c"
      by (auto simp: HasComponent_iff_GetComponent)
    then obtain e where "GetComponent go TMeshFilter = Some (MeshFilter e)"
      by (auto dest: GetComponent_MeshFilter)
    note mf = this
    have "survives h cam ro rd a \<longleftrightarrow>
        RaySphereIntersect ro rd (bounding_radius e)
        \<and> \<not> RaySphereIntersect (t_position cam) (t_forward cam) (bounding_radius e)"
      using go False mf by (simp add: survives_def has_type_def radius_at_def)
    with go IH False mf show ?thesis by simp
  qed
qed

lemma closest_loop_spec:
  "list_all (\<lambda>a. h a \<noteq> None) as \<Longrightarrow>
   \<exists>r. closest_loop h posB as m cl = Inr r \<and>
     ((r = cl \<and> (\<forall>b \<in> set as. \<not> f_less (distance_at h posB b) m))
      \<or> (\<exists>pre a post. as = pre @ a # post \<and> r = Some a \<and> f_less (distance_at h posB a) m
            \<and> (\<forall>b \<in> set pre. distance_at h posB b = NaN
                   \<or> f_less (distance_at h posB a) (distance_at h posB b))
            \<and> (\<forall>b \<in> set post. \<not> f_less (distance_at h posB b) (distance_at h posB a))))"
proof (induction as arbitrary: m cl)
  case Nil
  show ?case by simp
next
  case (Cons x xs)
  then obtain go where go: "h x = Some go" by auto
  have dx: "distance_at h posB x = distance (t_position go) posB"
    using go by (simp add: distance_at_def)
  have live: "list_all (\<lambda>a. h a \<noteq> None) xs" using Cons.prems by simp
  show ?case
  proof (cases "f_less (distance (t_position go) posB) m")
    case True
    from Cons.IH[OF live, of "distance (t_position go) posB" "Some x"]
    obtain r where r: "closest_loop h posB xs (distance (t_position go) posB) (Some x) = Inr r"
      and alt: "(r = Some x \<and> (\<forall>b \<in> set xs. \<not> f_less (distance_at h posB b) (distance (t_position go) posB)))
        \<or> (\<exists>pre a post. xs = pre @ a # post \<and> r = Some a
              \<and> f_less (distance_at h posB a) (distance (t_position go) posB)
              \<and> (\<forall>b \<in> set pre. distance_at h posB b = NaN
                     \<or> f_less (distance_at h posB a) (distance_at h posB b))
              \<and> (\<forall>b \<in> set post. \<not> f_less (distance_at h posB b) (distance_at h posB a)))"
      by blast
    have eq: "closest_loop h posB (x # xs) m cl = Inr r"
      using go True r by simp
    from alt show ?thesis
    proof
      assume a: "r = Some x \<and> (\<forall>b \<in> set xs. \<not> f_less (distance_at h posB b) (distance (t_position go) posB))"
      have "x # xs = [] @ x # xs \<and> r = Some x \<and> f_less (distance_at h posB x) m
            \<and> (\<forall>b \<in> set []. distance_at h posB b = NaN
                   \<or> f_less (distance_at h posB x) (distance_at h posB b))
            \<and> (\<forall>b \<in> set xs. \<not> f_less (distance_at h posB b) (distance_at h posB x))"
        using a True dx by simp
      then show ?thesis using eq by blast
    next
      assume "\<exists>pre a post. xs = pre @ a # post \<and> r = Some a
              \<and> f_less (distance_at h posB a) (distance (t_position go) posB)
              \<and> (\<forall>b \<in> set pre. distance_at h posB b = NaN
                     \<or> f_less (distance_at h posB a) (distance_at h posB b))
              \<and> (\<forall>b \<in> set post. \<not> f_less (distance_at h posB b) (distance_at h posB a))"
      then obtain pre a post where p: "xs = pre @ a # post" "r = Some a"
          "f_less (distance_at h posB a) (distance (t_position go) posB)"
          "\<forall>b \<in> set pre. distance_at h posB b = NaN
              \<or> f_less (distance_at h posB a) (distance_at h posB b)"
          "\<forall>b \<in> set post. \<not> f_less (distance_at h posB b) (distance_at h posB a)"
        by blast
      from f_less_trans[OF p(3) True] have am: "f_less (distance_at h posB a) m" .
      have "x # xs = (x # pre) @ a # post \<and> r = Some a \<and> f_less (distance_at h posB a) m
            \<and> (\<forall>b \<in> set (x # pre). distance_at h posB b = NaN
                   \<or> f_less (distance_at h posB a) (distance_at h posB b))
            \<and> (\<forall>b \<in> set post. \<not> f_less (distance_at h posB b) (distance_at h posB a))"
        using p am dx by auto
      then show ?thesis using eq by blast
    qed
  next
    case False
    from Cons.IH[OF live, of m cl]
    obtain r where r: "closest_loop h posB xs m cl = Inr r"
      and alt: "(r = cl \<and> (\<forall>b \<in> set xs. \<not> f_less (distance_at h posB b) m))
        \<or> (\<exists>pre a post. xs = pre @ a # post \<and> r = Some a
              \<and> f_less (distance_at h posB a) m
              \<and> (\<forall>b \<in> set pre. distance_at h posB b = NaN
                     \<or> f_less (distance_at h posB a) (distance_at h posB b))
              \<and> (\<forall>b \<in> set post. \<not> f_less (distance_at h posB b) (distance_at h posB a)))"
      by blast
    have eq: "closest_loop h posB (x # xs) m cl = Inr r"
      using go False r by simp
    from alt show ?thesis
    proof
      assume "r = cl \<and> (\<forall>b \<in> set xs. \<not> f_less (distance_at h posB b) m)"
      then show ?thesis using eq False dx by auto
    next
      assume "\<exists>pre a post. xs = pre @ a # post \<and> r = Some a
              \<and> f_less (distance_at h posB a) m
              \<and> (\<forall>b \<in> set pre. distance_at h posB b = NaN
                     \<or> f_less (distance_at h posB a) (distance_at h posB b))
              \<and> (\<forall>b \<in> set post. \<not> f_less (distance_at h posB b) (distance_at h posB a))"
      then obtain pre a post where p: "xs = pre @ a # post" "r = Some a"
          "f_less (distance_at h posB a) m"
          "\<forall>b \<in> set pre. distance_at h posB b = NaN
              \<or> f_less (distance_at h posB a) (distance_at h posB b)"
          "\<forall>b \<in> set post. \<not> f_less (distance_at h posB b) (distance_at h posB a)"
        by blast
      have xa: "distance_at h posB x = NaN \<or> f_less (distance_at h posB a) (distance_at h posB x)"
        using f_less_total[OF _ _ p(3), of "distance_at h posB x"] False dx by auto
      have "x # xs = (x # pre) @ a # post \<and> r = Some a \<and> f_less (distance_at h posB a) m
            \<and> (\<forall>b \<in> set (x # pre). distance_at h posB b = NaN
                   \<or> f_less (distance_at h posB a) (distance_at h posB b))
            \<and> (\<forall>b \<in> set post. \<not> f_less (distance_at h posB b) (distance_at h posB a))"
        using p xa by auto
      then show ?thesis using eq by blast
    qed
  qed
qed

lemma closest_loop_Some:
  "closest_loop h posB as m cl = Inr (Some a) \<Longrightarrow>
   cl = Some a \<or> (\<exists>go. h a = Some go \<and> f_less (distance (t_position go) posB) m)"
proof (induction as arbitrary: m cl)
  case Nil
  then show ?case by simp
next
  case (Cons x xs)
  then obtain go where go: "h x = Some go" by (cases "h x") auto
  show ?case
  proof (cases "f_less (distance (t_position go) posB) m")
    case True
    with Cons.prems go
    have "closest_loop h posB xs (distance (t_position go) posB) (Some x) = Inr (Some a)" by simp
    from Cons.IH[OF this] go True show ?thesis by (auto intro: f_less_trans)
  next
    case False
    with Cons.prems go have "closest_loop h posB xs m cl = Inr (Some a)" by simp
    from Cons.IH[OF this] show ?thesis .
  qed
qed

lemma intersection_test_live:
  "intersection_test h cam ro rd rs = Inr cands \<Longrightarrow> list_all (\<lambda>a. h a \<noteq> None) cands"
proof (induction rs arbitrary: cands)
  case Nil
  then show ?case by simp
next
  case (Cons a rs)
  then show ?case
    by (auto split: option.splits if_splits Component.splits sum.splits)
qed



text \<open>The arithmetic of the example scenes, computed in binary32.\<close>

lemma example_radius:
  "bounding_radius (vec 1 1 1) = Fin 1"
  "bounding_radius (vec 1 (-2) 1) = Fin 2"
  by code_simp+

lemma example_rays:
  "RaySphereIntersect (vec 0 0 (-5)) (vec 0 0 1) (Fin 1) = True"
  "RaySphereIntersect (vec 0 0 (-5)) (vec 0 0 1) (Fin 2) = True"
  "RaySphereIntersect (vec 0 0 (-5)) (vec 0 3 10) (Fin 1) = False"
  "RaySphereIntersect (vec 0 0 (-5)) (vec 0 3 10) (Fin 2) = True"
  "RaySphereIntersect (vec 0 0 (-5)) (vec 0 1 0) (Fin 1) = False"
  "RaySphereIntersect (vec 0 0 (-5)) (vec 0 1 0) (Fin 2) = False"
  by code_simp+

lemma example_distances:
  "distance (vec 0 0 0) (vec 0 0 (-5)) = Fin 5"
  "distance (vec 0 0 (-10)) (vec 0 0 (-5)) = Fin 5"
  "distance (vec 0 0 1995) (vec 0 0 (-5)) = Fin 2000"
  "distance (vec 0 0 2995) (vec 0 0 (-5)) = Fin 3000"
  "distance (vec (6737 / 8) (17233 / 32) (1501 / 64)) (vec 0 0 (-5)) = Fin (16383999 / 16384)"
  by code_simp+

lemmas pick_eval = MousePick_def pick_scene_def radius_at_def distance_at_def HasComponent_def
  GetComponent_def entity_def new_GameObject_def example_radius example_rays example_distances

text \<open>
  Claim C7, as the code has it. With an active camera and readable renderables, the
  candidates that reach the closest-selection loop are the renderables, in cache order,
  that are no skybox, whose bounding sphere the pick ray intersects and whose bounding
  sphere the ray from the camera position along the camera's forward vector does NOT
  intersect: a renderable that the second ray intersects is discarded. Both tests are
  \<^verbatim>\<open>RaySphereIntersect\<close> as the code computes it in \<^verbatim>\<open>float\<close>.
\<close>

theorem MousePick_candidates:
  assumes "m_mainCamera s = Some c" and "heap s c = Some cam" and "HasComponent cam TCamera"
    and "list_all (pickable (heap s)) (m_renderables s)"
  shows "intersection_test (heap s) cam rayOrigin rayDirection (m_renderables s)
           = Inr (filter (survives (heap s) cam rayOrigin rayDirection) (m_renderables s))
     \<and> MousePick s rayOrigin rayDirection
           = closest_loop (heap s) (t_position cam)
               (filter (survives (heap s) cam rayOrigin rayDirection) (m_renderables s)) (Fin 1000) None
     \<and> (\<forall>a \<in> set (m_renderables s).
           RaySphereIntersect (t_position cam) (t_forward cam) (radius_at (heap s) a) \<longrightarrow>
           a \<notin> set (filter (survives (heap s) cam rayOrigin rayDirection) (m_renderables s)))"
  using assms intersection_test_filter[OF assms(4), of cam rayOrigin rayDirection]
  by (simp add: MousePick_def survives_def)

theorem MousePick_candidates_witness:
  "m_mainCamera (pick_scene (vec 0 1 0) (vec 0 0 0) (vec 0 0 0)) = Some 0
   \<and> list_all (pickable (heap (pick_scene (vec 0 1 0) (vec 0 0 0) (vec 0 0 0)))) [1, 2]
   \<and> intersection_test (heap (pick_scene (vec 0 1 0) (vec 0 0 0) (vec 0 0 0)))
        ((entity ''cam'' [Camera])\<lparr> t_position := vec 0 0 (-5), t_forward := vec 0 1 0 \<rparr>)
        (vec 0 0 (-5)) (vec 0 0 1) [1, 2] = Inr [1, 2]
   \<and> MousePick (pick_scene (vec 0 1 0) (vec 0 0 0) (vec 0 0 0)) (vec 0 0 (-5)) (vec 0 0 1) = Inr (Some 1)"
proof -
  let ?s = "pick_scene (vec 0 1 0) (vec 0 0 0) (vec 0 0 0)"
  let ?cam = "(entity ''cam'' [Camera])\<lparr> t_position := vec 0 0 (-5), t_forward := vec 0 1 0 \<rparr>"
  have a1: "m_mainCamera ?s = Some 0" by (simp add: pick_scene_def)
  have a2: "heap ?s 0 = Some ?cam" by (simp add: pick_scene_def)
  have a3: "HasComponent ?cam TCamera" by (simp add: HasComponent_def entity_def)
  have a4: "list_all (pickable (heap ?s)) (m_renderables ?s)"
    by (simp add: pick_scene_def pickable_def HasComponent_def entity_def)
  have rs: "m_renderables ?s = [1, 2]" by (simp add: pick_scene_def)
  have m: "MousePick ?s (vec 0 0 (-5)) (vec 0 0 1) = Inr (Some 1)"
    by (simp add: pick_eval)
  show ?thesis
    using a1 a4 m MousePick_candidates[OF a1 a2 a3 a4, of "vec 0 0 (-5)" "vec 0 0 1"]
    by (simp add: rs survives_def has_type_def pick_eval)
qed

text \<open>
  Claim C7 as stated fails: here the pick ray intersects the sphere of entity 1, the ray
  along the camera's forward vector (some 17 degrees off the pick ray) does not, and
  entity 1 is kept and even returned.
\<close>

theorem MousePick_keeps_counterexample:
  "RaySphereIntersect (vec 0 0 (-5)) (vec 0 0 1)
     (radius_at (heap (pick_scene (vec 0 3 10) (vec 0 0 0) (vec 0 0 0))) 1)
   \<and> \<not> RaySphereIntersect (vec 0 0 (-5)) (vec 0 3 10)
     (radius_at (heap (pick_scene (vec 0 3 10) (vec 0 0 0) (vec 0 0 0))) 1)
   \<and> intersection_test (heap (pick_scene (vec 0 3 10) (vec 0 0 0) (vec 0 0 0)))
        ((entity ''cam'' [Camera])\<lparr> t_position := vec 0 0 (-5), t_forward := vec 0 3 10 \<rparr>)
        (vec 0 0 (-5)) (vec 0 0 1) (m_renderables (pick_scene (vec 0 3 10) (vec 0 0 0) (vec 0 0 0)))
       = Inr [1]
   \<and> MousePick (pick_scene (vec 0 3 10) (vec 0 0 0) (vec 0 0 0)) (vec 0 0 (-5)) (vec 0 0 1) = Inr (Some 1)"
  by (simp add: pick_eval)

text \<open>
  Claim C8 as stated fails: two candidates survive the intersection tests, at distances
  2000 and 3000 from the camera, and \<^verbatim>\<open>MousePick\<close> returns null.
\<close>

theorem MousePick_closest_counterexample:
  "intersection_test (heap (pick_scene (vec 0 1 0) (vec 0 0 1995) (vec 0 0 2995)))
        ((entity ''cam'' [Camera])\<lparr> t_position := vec 0 0 (-5), t_forward := vec 0 1 0 \<rparr>)
        (vec 0 0 (-5)) (vec 0 0 1) (m_renderables (pick_scene (vec 0 1 0) (vec 0 0 1995) (vec 0 0 2995)))
       = Inr [1, 2]
   \<and> distance_at (heap (pick_scene (vec 0 1 0) (vec 0 0 1995) (vec 0 0 2995))) (vec 0 0 (-5)) 1 = Fin 2000
   \<and> distance_at (heap (pick_scene (vec 0 1 0) (vec 0 0 1995) (vec 0 0 2995))) (vec 0 0 (-5)) 2 = Fin 3000
   \<and> MousePick (pick_scene (vec 0 1 0) (vec 0 0 1995) (vec 0 0 2995)) (vec 0 0 (-5)) (vec 0 0 1) = Inr None"
  by (simp add: pick_eval)

text \<open>
  Claim C8, amended. Distances are the \<^verbatim>\<open>float\<close> values the code computes and
  comparisons are \<^verbatim>\<open>float\<close> comparisons. \<^verbatim>\<open>MousePick\<close> returns null exactly when no
  surviving candidate has a distance that compares below 1000 (in particular when there
  is no candidate, as when no renderable's sphere meets the pick ray). Otherwise it
  returns a surviving candidate whose distance compares below 1000 and below the
  distance of every candidate before it (unless that one's distance is NaN), while no
  candidate after it has a distance that compares below its own: the closest one, the
  first in iteration order on a tie.
\<close>

theorem MousePick_closest:
  assumes "m_mainCamera s = Some c" and "heap s c = Some cam" and "HasComponent cam TCamera"
    and "list_all (pickable (heap s)) (m_renderables s)"
    and "cands = filter (survives (heap s) cam rayOrigin rayDirection) (m_renderables s)"
  shows "\<exists>r. MousePick s rayOrigin rayDirection = Inr r
     \<and> (r = None \<longleftrightarrow> (\<forall>b \<in> set cands. \<not> f_less (distance_at (heap s) (t_position cam) b) (Fin 1000)))
     \<and> (\<forall>a. r = Some a \<longrightarrow>
          (\<exists>pre post. cands = pre @ a # post
             \<and> f_less (distance_at (heap s) (t_position cam) a) (Fin 1000)
             \<and> (\<forall>b \<in> set pre. distance_at (heap s) (t_position cam) b = NaN
                   \<or> f_less (distance_at (heap s) (t_position cam) a) (distance_at (heap s) (t_position cam) b))
             \<and> (\<forall>b \<in> set post.
                   \<not> f_less (distance_at (heap s) (t_position cam) b) (distance_at (heap s) (t_position cam) a))))
     \<and> ((\<forall>a \<in> set (m_renderables s). \<not> RaySphereIntersect rayOrigin rayDirection (radius_at (heap s) a))
          \<longrightarrow> r = None)"
proof -
  let ?d = "distance_at (heap s) (t_position cam)"
  have it: "intersection_test (heap s) cam rayOrigin rayDirection (m_renderables s) = Inr cands"
    using intersection_test_filter[OF assms(4)] assms(5) by simp
  have mp: "MousePick s rayOrigin rayDirection = closest_loop (heap s) (t_position cam) cands (Fin 1000) None"
    using assms(1-3) it by (simp add: MousePick_def)
  have live: "list_all (\<lambda>a. heap s a \<noteq> None) cands"
    using it by (rule intersection_test_live)
  from closest_loop_spec[OF live, of "t_position cam" "Fin 1000" None]
  obtain r where r: "closest_loop (heap s) (t_position cam) cands (Fin 1000) None = Inr r"
    and alt: "(r = None \<and> (\<forall>b \<in> set cands. \<not> f_less (?d b) (Fin 1000)))
      \<or> (\<exists>pre a post. cands = pre @ a # post \<and> r = Some a
            \<and> f_less (?d a) (Fin 1000)
            \<and> (\<forall>b \<in> set pre. ?d b = NaN \<or> f_less (?d a) (?d b))
            \<and> (\<forall>b \<in> set post. \<not> f_less (?d b) (?d a)))"
    by blast
  have none: "r = None \<longleftrightarrow> (\<forall>b \<in> set cands. \<not> f_less (?d b) (Fin 1000))"
    using alt by fastforce
  have some: "\<forall>a. r = Some a \<longrightarrow>
          (\<exists>pre post. cands = pre @ a # post
             \<and> f_less (?d a) (Fin 1000)
             \<and> (\<forall>b \<in> set pre. ?d b = NaN \<or> f_less (?d a) (?d b))
             \<and> (\<forall>b \<in> set post. \<not> f_less (?d b) (?d a)))"
    using alt by auto
  have empty: "r = None"
    if "\<forall>a \<in> set (m_renderables s). \<not> RaySphereIntersect rayOrigin rayDirection (radius_at (heap s) a)"
  proof -
    from that have "cands = []" unfolding assms(5) by (simp add: survives_def filter_empty_conv)
    with none show ?thesis by simp
  qed
  show ?thesis using mp r none some empty by simp
qed

theorem MousePick_closest_witness:
  "m_mainCamera (pick_scene (vec 0 1 0) (vec 0 0 0) (vec 0 0 (-10))) = Some 0
   \<and> list_all (pickable (heap (pick_scene (vec 0 1 0) (vec 0 0 0) (vec 0 0 (-10)))))
        (m_renderables (pick_scene (vec 0 1 0) (vec 0 0 0) (vec 0 0 (-10))))
   \<and> filter (survives (heap (pick_scene (vec 0 1 0) (vec 0 0 0) (vec 0 0 (-10))))
        ((entity ''cam'' [Camera])\<lparr> t_position := vec 0 0 (-5), t_forward := vec 0 1 0 \<rparr>)
        (vec 0 0 (-5)) (vec 0 0 1)) (m_renderables (pick_scene (vec 0 1 0) (vec 0 0 0) (vec 0 0 (-10))))
       = [1, 2]
   \<and> distance_at (heap (pick_scene (vec 0 1 0) (vec 0 0 0) (vec 0 0 (-10)))) (vec 0 0 (-5)) 1 = Fin 5
   \<and> distance_at (heap (pick_scene (vec 0 1 0) (vec 0 0 0) (vec 0 0 (-10)))) (vec 0 0 (-5)) 2 = Fin 5
   \<and> MousePick (pick_scene (vec 0 1 0) (vec 0 0 0) (vec 0 0 (-10))) (vec 0 0 (-5)) (vec 0 0 1) = Inr (Some 1)"
proof -
  let ?s = "pick_scene (vec 0 1 0) (vec 0 0 0) (vec 0 0 (-10))"
  let ?cam = "(entity ''cam'' [Camera])\<lparr> t_position := vec 0 0 (-5), t_forward := vec 0 1 0 \<rparr>"
  let ?d = "distance_at (heap ?s) (vec 0 0 (-5))"
  have a1: "m_mainCamera ?s = Some 0" by (simp add: pick_scene_def)
  have a2: "heap ?s 0 = Some ?cam" by (simp add: pick_scene_def)
  have a3: "HasComponent ?cam TCamera" by (simp add: HasComponent_def entity_def)
  have a4: "list_all (pickable (heap ?s)) (m_renderables ?s)"
    by (simp add: pick_scene_def pickable_def HasComponent_def entity_def)
  have pos: "t_position ?cam = vec 0 0 (-5)" by simp
  have c: "filter (survives (heap ?s) ?cam (vec 0 0 (-5)) (vec 0 0 1)) (m_renderables ?s) = [1, 2]"
    by (simp add: survives_def has_type_def pick_eval)
  have d1: "?d 1 = Fin 5" by (simp add: pick_eval)
  have d2: "?d 2 = Fin 5" by (simp add: pick_eval)
  obtain r where all: "MousePick ?s (vec 0 0 (-5)) (vec 0 0 1) = Inr r
     \<and> (r = None \<longleftrightarrow> (\<forall>b \<in> set [1, 2]. \<not> f_less (distance_at (heap ?s) (t_position ?cam) b) (Fin 1000)))
     \<and> (\<forall>a. r = Some a \<longrightarrow>
          (\<exists>pre post. [1, 2] = pre @ a # post
             \<and> f_less (distance_at (heap ?s) (t_position ?cam) a) (Fin 1000)
             \<and> (\<forall>b \<in> set pre. distance_at (heap ?s) (t_position ?cam) b = NaN
                   \<or> f_less (distance_at (heap ?s) (t_position ?cam) a) (distance_at (heap ?s) (t_position ?cam) b))
             \<and> (\<forall>b \<in> set post.
                   \<not> f_less (distance_at (heap ?s) (t_position ?cam) b) (distance_at (heap ?s) (t_position ?cam) a))))
     \<and> ((\<forall>a \<in> set (m_renderables ?s). \<not> RaySphereIntersect (vec 0 0 (-5)) (vec 0 0 1) (radius_at (heap ?s) a))
          \<longrightarrow> r = None)"
    using MousePick_closest[OF a1 a2 a3 a4 c[symmetric]] ..
  then have r: "MousePick ?s (vec 0 0 (-5)) (vec 0 0 1) = Inr r" by blast
  from all have none: "r = None \<longleftrightarrow> (\<forall>b \<in> set [1, 2]. \<not> f_less (?d b) (Fin 1000))"
    unfolding pos by blast
  from all have some: "\<forall>a. r = Some a \<longrightarrow>
          (\<exists>pre post. [1, 2] = pre @ a # post
             \<and> (\<forall>b \<in> set pre. ?d b = NaN \<or> f_less (?d a) (?d b)))"
    unfolding pos by blast
  from none have "r \<noteq> None" using d1 by simp
  then obtain a where a: "r = Some a" by auto
  with some obtain pre post where pp: "[1, 2] = pre @ a # post"
    "\<forall>b \<in> set pre. ?d b = NaN \<or> f_less (?d a) (?d b)"
    by blast
  have "a = 1"
  proof (cases pre)
    case Nil
    with pp(1) show ?thesis by simp
  next
    case (Cons x xs)
    with pp(1) have x: "x = 1" and rest: "[2] = xs @ a # post" by simp_all
    from rest have "a = 2" by (cases xs) simp_all
    with pp(2) Cons x d1 d2 show ?thesis by simp
  qed
  with a r a1 a4 c d1 d2 show ?thesis by simp
qed

text \<open>
  Claim C10 as stated fails by rounding: entity 1 lies at
  \<open>(842.125, 538.53125, 23.453125)\<close>, at a straight-line distance above 1000 from the
  camera at \<open>(0, 0, -5)\<close>; the distance computed in \<^verbatim>\<open>float\<close> is \<open>999.99993896484375\<close>,
  and \<^verbatim>\<open>MousePick\<close> returns the entity.
\<close>

theorem MousePick_within_1000_counterexample:
  "MousePick (pick_scene (vec 0 3 10) (vec (6737 / 8) (17233 / 32) (1501 / 64)) (vec 0 0 0))
      (vec 0 0 (-5)) (vec 0 0 1) = Inr (Some 1)
   \<and> t_position (the (heap (pick_scene (vec 0 3 10) (vec (6737 / 8) (17233 / 32) (1501 / 64)) (vec 0 0 0)) 1))
       = vec (6737 / 8) (17233 / 32) (1501 / 64)
   \<and> distance (vec (6737 / 8) (17233 / 32) (1501 / 64)) (vec 0 0 (-5)) = Fin (16383999 / 16384)
   \<and> 1000 < exact_distance (vec (6737 / 8) (17233 / 32) (1501 / 64)) (vec 0 0 (-5))"
proof -
  have "1000 < exact_distance (vec (6737 / 8) (17233 / 32) (1501 / 64)) (vec 0 0 (-5))"
    unfolding exact_distance_def by (rule real_less_rsqrt) (simp add: vec_def power2_eq_square of_rat_divide)
  moreover have "t_position (the (heap (pick_scene (vec 0 3 10) (vec (6737 / 8) (17233 / 32) (1501 / 64)) (vec 0 0 0)) 1))
       = vec (6737 / 8) (17233 / 32) (1501 / 64)"
    by (simp add: pick_scene_def)
  ultimately show ?thesis by (simp add: pick_eval)
qed

text \<open>
  Claim C10, amended. An entity returned by \<^verbatim>\<open>MousePick\<close> has a distance from the
  camera position that, as the code computes it in \<^verbatim>\<open>float\<close>, compares strictly below
  1000; and when no candidate of the intersection loop has a computed distance that
  compares below 1000, \<^verbatim>\<open>MousePick\<close> returns null, whether or not there are candidates.
\<close>

theorem MousePick_within_1000:
  "(MousePick s rayOrigin rayDirection = Inr (Some a) \<longrightarrow>
      (\<exists>c cam go. m_mainCamera s = Some c \<and> heap s c = Some cam \<and> heap s a = Some go
         \<and> f_less (distance (t_position go) (t_position cam)) (Fin 1000)))
   \<and> (m_mainCamera s = Some c \<and> heap s c = Some cam \<and> HasComponent cam TCamera
        \<and> intersection_test (heap s) cam rayOrigin rayDirection (m_renderables s) = Inr cands
        \<and> (\<forall>b \<in> set cands. \<not> f_less (distance_at (heap s) (t_position cam) b) (Fin 1000))
      \<longrightarrow> MousePick s rayOrigin rayDirection = Inr None)"
proof (intro conjI impI)
  assume mp: "MousePick s rayOrigin rayDirection = Inr (Some a)"
  then obtain c' cam' cands' where c': "m_mainCamera s = Some c'" "heap s c' = Some cam'"
    and cl: "closest_loop (heap s) (t_position cam') cands' (Fin 1000) None = Inr (Some a)"
    by (auto simp: MousePick_def split: option.splits if_splits sum.splits)
  from closest_loop_Some[OF cl] obtain go where "heap s a = Some go"
    "f_less (distance (t_position go) (t_position cam')) (Fin 1000)" by auto
  with c' show "\<exists>c cam go. m_mainCamera s = Some c \<and> heap s c = Some cam \<and> heap s a = Some go
         \<and> f_less (distance (t_position go) (t_position cam)) (Fin 1000)" by blast
next
  assume h: "m_mainCamera s = Some c \<and> heap s c = Some cam \<and> HasComponent cam TCamera
        \<and> intersection_test (heap s) cam rayOrigin rayDirection (m_renderables s) = Inr cands
        \<and> (\<forall>b \<in> set cands. \<not> f_less (distance_at (heap s) (t_position cam) b) (Fin 1000))"
  then have it: "intersection_test (heap s) cam rayOrigin rayDirection (m_renderables s) = Inr cands"
    by simp
  have live: "list_all (\<lambda>a. heap s a \<noteq> None) cands"
    using it by (rule intersection_test_live)
  from closest_loop_spec[OF live, of "t_position cam" "Fin 1000" None]
  obtain r where r: "closest_loop (heap s) (t_position cam) cands (Fin 1000) None = Inr r"
    and alt: "(r = None \<and> (\<forall>b \<in> set cands. \<not> f_less (distance_at (heap s) (t_position cam) b) (Fin 1000)))
      \<or> (\<exists>pre a post. cands = pre @ a # post \<and> r = Some a
            \<and> f_less (distance_at (heap s) (t_position cam) a) (Fin 1000)
            \<and> (\<forall>b \<in> set pre. distance_at (heap s) (t_position cam) b = NaN
                  \<or> f_less (distance_at (heap s) (t_position cam) a) (distance_at (heap s) (t_position cam) b))
            \<and> (\<forall>b \<in> set post.
                  \<not> f_less (distance_at (heap s) (t_position cam) b) (distance_at (heap s) (t_position cam) a)))"
    by blast
  from alt h have "r = None" by fastforce
  with r h show "MousePick s rayOrigin rayDirection = Inr None"
    by (simp add: MousePick_def)
qed

theorem MousePick_within_1000_witness:
  "MousePick (pick_scene (vec 0 3 10) (vec 0 0 0) (vec 0 0 0)) (vec 0 0 (-5)) (vec 0 0 1) = Inr (Some 1)
   \<and> f_less (distance (vec 0 0 0) (vec 0 0 (-5))) (Fin 1000)
   \<and> intersection_test (heap (pick_scene (vec 0 3 10) (vec 0 0 1995) (vec 0 0 0)))
        ((entity ''cam'' [Camera])\<lparr> t_position := vec 0 0 (-5), t_forward := vec 0 3 10 \<rparr>)
        (vec 0 0 (-5)) (vec 0 0 1) (m_renderables (pick_scene (vec 0 3 10) (vec 0 0 1995) (vec 0 0 0)))
       = Inr [1]
   \<and> \<not> f_less (distance_at (heap (pick_scene (vec 0 3 10) (vec 0 0 1995) (vec 0 0 0))) (vec 0 0 (-5)) 1) (Fin 1000)
   \<and> MousePick (pick_scene (vec 0 3 10) (vec 0 0 1995) (vec 0 0 0)) (vec 0 0 (-5)) (vec 0 0 1) = Inr None"
proof -
  let ?near = "pick_scene (vec 0 3 10) (vec 0 0 0) (vec 0 0 0)"
  let ?far = "pick_scene (vec 0 3 10) (vec 0 0 1995) (vec 0 0 0)"
  let ?cam = "(entity ''cam'' [Camera])\<lparr> t_position := vec 0 0 (-5), t_forward := vec 0 3 10 \<rparr>"
  have near: "MousePick ?near (vec 0 0 (-5)) (vec 0 0 1) = Inr (Some 1)"
    by (simp add: pick_eval)
  have a1: "m_mainCamera ?far = Some 0" by (simp add: pick_scene_def)
  have a2: "heap ?far 0 = Some ?cam" by (simp add: pick_scene_def)
  have a3: "HasComponent ?cam TCamera" by (simp add: HasComponent_def entity_def)
  have it: "intersection_test (heap ?far) ?cam (vec 0 0 (-5)) (vec 0 0 1) (m_renderables ?far) = Inr [1]"
    by (simp add: pick_eval)
  have d: "\<not> f_less (distance_at (heap ?far) (vec 0 0 (-5)) 1) (Fin 1000)"
    by (simp add: pick_eval)
  have d': "\<forall>b \<in> set [1]. \<not> f_less (distance_at (heap ?far) (t_position ?cam) b) (Fin 1000)"
    using d by simp
  have h1: "heap ?near 1 = Some ((entity ''ball'' [MeshFilter (vec 1 1 1), MeshRenderer])\<lparr> t_position := vec 0 0 0 \<rparr>)"
    by (simp add: pick_scene_def)
  have h0: "heap ?near 0 = Some ?cam" by (simp add: pick_scene_def)
  have n1: "m_mainCamera ?near = Some 0" by (simp add: pick_scene_def)
  from MousePick_within_1000[of ?near "vec 0 0 (-5)" "vec 0 0 1" 1, THEN conjunct1, rule_format, OF near]
  have dn: "f_less (distance (vec 0 0 0) (vec 0 0 (-5))) (Fin 1000)"
    using h1 h0 n1 by auto
  from MousePick_within_1000[of ?far "vec 0 0 (-5)" "vec 0 0 1" _ 0 ?cam "[1]", THEN conjunct2, rule_format]
    a1 a2 a3 it d'
  have far: "MousePick ?far (vec 0 0 (-5)) (vec 0 0 1) = Inr None" by blast
  show ?thesis using near dn it d far by simp
qed

end
